theory Spec2Isabelle
  imports Main
begin

section \<open>Data model\<close>

text \<open>
  The module under verification is \<^verbatim>\<open>configurator/src/ConfiguratorCore.cpp\<close>. It is glue
  code: every function in it threads the process-wide state (the filesystem, the log,
  standard output, the dialogs shown, the global configuration) through calls to
  collaborators that live in other files. The model makes that state an explicit record
  \<open>World\<close>, passed in and returned, and takes the behaviour the file does not fix (whether
  the operating system lets a file be removed or written, what the DSA parser accepts,
  where the key paths point) from a record of collaborators.
\<close>

text \<open>Modelled from the spec: \<^verbatim>\<open>ItalcCore::UserRole\<close> is declared in ItalcCore.h, which is
  not part of the sources; the spec describes it as an enumerated authorization tier.\<close>

datatype UserRole = RoleNone | RoleTeacher | RoleAdmin | RoleSupporter | RoleOther

text \<open>The permission flags of \<^verbatim>\<open>QFile::Permission\<close>.\<close>

datatype Permission =
    ReadOwner | WriteOwner | ExeOwner
  | ReadUser | WriteUser | ExeUser
  | ReadGroup | WriteGroup | ExeGroup
  | ReadOther | WriteOther | ExeOther

record File =
  content :: string
  permissions :: "Permission set"

text \<open>Modelled from the spec: the key classes of DsaKey.h are not part of the sources. The
  spec gives a key its bit strength and its raw key bytes; an object of class
  \<^verbatim>\<open>PublicDSAKey\<close> or \<^verbatim>\<open>PrivateDSAKey\<close> either holds such a key or is marked invalid, so
  it is a \<open>DsaKey option\<close> and \<^verbatim>\<open>isValid()\<close> asks whether it holds one.\<close>

record DsaKey =
  keyBits :: nat
  keyBytes :: string

definition isValid :: "DsaKey option \<Rightarrow> bool" where
  "isValid k = (k \<noteq> None)"

text \<open>Where a line of output goes: \<^verbatim>\<open>LogStream()\<close> with its default level or with an
  explicit one, Qt's \<^verbatim>\<open>qCritical\<close> and \<^verbatim>\<open>qWarning\<close>, and the \<^verbatim>\<open>ilog_failed\<close> macro.
  An entry keeps the items streamed into it, in order.\<close>

datatype LogChannel =
    LogLevelDefault | LogLevelInfo | LogLevelCritical
  | QCritical | QWarning | IlogFailed

type_synonym LogEntry = "LogChannel \<times> string list"

datatype Dialog = InformationBox string string | CriticalBox string string

text \<open>\<^verbatim>\<open>ItalcConfiguration::DataMap\<close> is a \<^verbatim>\<open>QMap<QString, QVariant>\<close> whose values are
  strings, nested maps, or variants of another type. A map is the list of its entries in
  the order its iterator visits them.\<close>

datatype QVariant =
    VInvalid | VBool bool | VInt int
  | VString string | VStringList "string list"
  | VMap "(string \<times> QVariant) list"

type_synonym DataMap = "(string \<times> QVariant) list"

text \<open>The calls the module makes into the system: the three modifiers of
  \<^verbatim>\<open>SystemConfigurationModifier\<close> and, in a Windows build, \<^verbatim>\<open>LogonAclSettings::setACL\<close>.\<close>

datatype SystemCall =
    SetServiceAutostart bool
  | SetServiceArguments string
  | EnableFirewallException bool
  | SetACL string

text \<open>The process-wide state the functions of the module work on: the files by path,
  the log, what was written to standard output, the message boxes shown, the two globals
  of the module (\<^verbatim>\<open>silent\<close>, and whether \<^verbatim>\<open>QCoreApplication::instance()\<close> is a
  \<^verbatim>\<open>QApplication\<close>), the global configuration \<^verbatim>\<open>ItalcCore::config\<close>, what the system-wide
  \<^verbatim>\<open>LocalStore\<close> holds, and the calls made into the system, in order.\<close>

record World =
  files :: "string \<rightharpoonup> File"
  logged :: "LogEntry list"
  printed :: "string list"
  dialogs :: "Dialog list"
  silent :: bool
  guiApplication :: bool
  config :: DataMap
  systemStore :: "DataMap option"
  systemCalls :: "SystemCall list"

text \<open>The collaborators of the key operations. None of them is defined in the sources:
  \<^item> \<open>privateKeyPath\<close>, \<open>publicKeyPath\<close>: \<^verbatim>\<open>LocalSystem::Path\<close>;
  \<^item> \<open>decodePublic\<close>: the parser behind \<^verbatim>\<open>PublicDSAKey( file )\<close>, \<open>None\<close> for bytes
    that are not a well-formed DSA public key;
  \<^item> \<open>generatePrivate\<close>: the outcome of the generation primitive behind
    \<^verbatim>\<open>PrivateDSAKey( bits )\<close>, \<open>None\<close> when it fails;
  \<^item> \<open>derivePublic\<close>: the public half of a private key, \<^verbatim>\<open>PublicDSAKey( pkey )\<close>;
  \<^item> \<open>publicKeyPermissions\<close>: the permissions a saved public key file gets;
  \<^item> \<open>canSetPermissions\<close>, \<open>canRemove\<close>, \<open>canWrite\<close>: whether the operating system
    lets the permissions of a path be changed, lets a file with the given permissions be
    removed, lets a path be written.\<close>

record Collaborators =
  privateKeyPath :: "UserRole \<Rightarrow> string \<Rightarrow> string"
  publicKeyPath :: "UserRole \<Rightarrow> string \<Rightarrow> string"
  decodePublic :: "string \<Rightarrow> DsaKey option"
  generatePrivate :: "nat \<Rightarrow> DsaKey option"
  derivePublic :: "DsaKey \<Rightarrow> DsaKey"
  publicKeyPermissions :: "Permission set"
  canSetPermissions :: "string \<Rightarrow> bool"
  canRemove :: "string \<Rightarrow> Permission set \<Rightarrow> bool"
  canWrite :: "string \<Rightarrow> bool"

text \<open>The collaborators of \<^verbatim>\<open>applyConfiguration\<close>, none of them defined in the sources:
  \<^item> \<open>applicationName\<close>: \<^verbatim>\<open>ItalcCore::applicationName()\<close>;
  \<^item> \<open>trArg\<close>: \<^verbatim>\<open>MainWindow::tr( text ).arg( a )\<close>, the translated text with \<open>a\<close> in
    the place of its marker;
  \<^item> \<open>mergeConfiguration\<close>: \<^verbatim>\<open>operator+=\<close> of the configuration object;
  \<^item> \<open>autostartService\<close>, \<open>serviceArguments\<close>, \<open>isFirewallExceptionEnabled\<close>,
    \<open>configValue\<close>, \<open>removeValue\<close>: the accessors of \<^verbatim>\<open>ItalcConfiguration\<close>;
  \<^item> \<open>setServiceAutostart\<close>, \<open>setServiceArguments\<close>, \<open>enableFirewallException\<close>:
    whether the modifier of that name reports success for its argument;
  \<^item> \<open>buildWin32\<close>: whether \<^verbatim>\<open>ITALC_BUILD_WIN32\<close> is defined.\<close>

record ConfigCollaborators =
  applicationName :: string
  trArg :: "string \<Rightarrow> string \<Rightarrow> string"
  mergeConfiguration :: "DataMap \<Rightarrow> DataMap \<Rightarrow> DataMap"
  autostartService :: "DataMap \<Rightarrow> bool"
  serviceArguments :: "DataMap \<Rightarrow> string"
  isFirewallExceptionEnabled :: "DataMap \<Rightarrow> bool"
  configValue :: "string \<Rightarrow> string \<Rightarrow> DataMap \<Rightarrow> string"
  removeValue :: "string \<Rightarrow> string \<Rightarrow> DataMap \<Rightarrow> DataMap"
  setServiceAutostart :: "bool \<Rightarrow> bool"
  setServiceArguments :: "string \<Rightarrow> bool"
  enableFirewallException :: "bool \<Rightarrow> bool"
  buildWin32 :: bool

section \<open>Logging and files\<close>

definition logLine :: "LogChannel \<Rightarrow> string list \<Rightarrow> World \<Rightarrow> World" where
  "logLine ch items w = w\<lparr>logged := logged w @ [(ch, items)]\<rparr>"

definition ilog_failed :: "string \<Rightarrow> World \<Rightarrow> World" where
  "ilog_failed what w = logLine IlogFailed [what] w"

definition printf :: "string \<Rightarrow> World \<Rightarrow> World" where
  "printf s w = w\<lparr>printed := printed w @ [s]\<rparr>"

text \<open>\<^verbatim>\<open>s.toUtf8().constData()\<close>: the bytes of the string handed on as a C string, which
  ends at its first NUL byte. Strings of the model are byte strings already.\<close>

definition constData :: "string \<Rightarrow> string" where
  "constData s = takeWhile (\<lambda>c. c \<noteq> CHR 0x00) s"

text \<open>\<^verbatim>\<open>QFile\<close>, as Qt documents it: \<^verbatim>\<open>exists()\<close> reads only;
  \<^verbatim>\<open>setPermissions()\<close> and \<^verbatim>\<open>remove()\<close> return whether they succeeded and change
  nothing when they did not.\<close>

definition QFile_exists :: "World \<Rightarrow> string \<Rightarrow> bool" where
  "QFile_exists w p = (files w p \<noteq> None)"

definition QFile_setPermissions ::
  "Collaborators \<Rightarrow> string \<Rightarrow> Permission set \<Rightarrow> World \<Rightarrow> bool \<times> World" where
  "QFile_setPermissions E p perms w =
     (case files w p of
        None \<Rightarrow> (False, w)
      | Some f \<Rightarrow>
          if canSetPermissions E p
          then (True, w\<lparr>files := (files w)(p \<mapsto> f\<lparr>permissions := perms\<rparr>)\<rparr>)
          else (False, w))"

definition QFile_remove :: "Collaborators \<Rightarrow> string \<Rightarrow> World \<Rightarrow> bool \<times> World" where
  "QFile_remove E p w =
     (case files w p of
        None \<Rightarrow> (False, w)
      | Some f \<Rightarrow>
          if canRemove E p (permissions f)
          then (True, w\<lparr>files := (files w)(p := None)\<rparr>)
          else (False, w))"

section \<open>DSA keys\<close>

text \<open>Modelled from the spec: DsaKey.cpp is not part of the sources. The spec's
  \<open>loadPublic\<close> parses a file and, when the content is not a well-formed DSA public key,
  marks the instance invalid instead of throwing; a missing file has no content to
  parse. Loading reads the filesystem and changes nothing.\<close>

definition PublicDSAKey_load :: "Collaborators \<Rightarrow> World \<Rightarrow> string \<Rightarrow> DsaKey option" where
  "PublicDSAKey_load E w p =
     (case files w p of
        None \<Rightarrow> None
      | Some f \<Rightarrow> decodePublic E (content f))"

text \<open>Modelled from the spec: \<open>generatePrivate(bits)\<close> yields a fresh private key of the
  requested strength or fails; \<open>derivePublic\<close> always succeeds on a valid private key.\<close>

definition PrivateDSAKey_generate :: "Collaborators \<Rightarrow> nat \<Rightarrow> DsaKey option" where
  "PrivateDSAKey_generate E n = generatePrivate E n"

definition PublicDSAKey_derive :: "Collaborators \<Rightarrow> DsaKey option \<Rightarrow> DsaKey option" where
  "PublicDSAKey_derive E pkey = map_option (derivePublic E) pkey"

text \<open>Modelled from the spec: \<open>save(path)\<close> serializes the key bytes to the target path and
  answers success or a write failure. An invalid key has nothing to save. A private key
  file is readable and writable by its owner and readable by the group, with no access
  for anyone else. The spec does not say what a failed save leaves behind; here it
  leaves the filesystem as it found it.\<close>

definition saveKey ::
  "Collaborators \<Rightarrow> Permission set \<Rightarrow> DsaKey option \<Rightarrow> string \<Rightarrow> World \<Rightarrow> bool \<times> World" where
  "saveKey E perms k p w =
     (case k of
        None \<Rightarrow> (False, w)
      | Some d \<Rightarrow>
          if canWrite E p
          then (True, w\<lparr>files := (files w)(p \<mapsto> \<lparr>content = keyBytes d, permissions = perms\<rparr>)\<rparr>)
          else (False, w))"

definition PrivateDSAKey_save ::
  "Collaborators \<Rightarrow> DsaKey option \<Rightarrow> string \<Rightarrow> World \<Rightarrow> bool \<times> World" where
  "PrivateDSAKey_save E k p w = saveKey E {ReadOwner, WriteOwner, ReadGroup} k p w"

definition PublicDSAKey_save ::
  "Collaborators \<Rightarrow> DsaKey option \<Rightarrow> string \<Rightarrow> World \<Rightarrow> bool \<times> World" where
  "PublicDSAKey_save E k p w = saveKey E (publicKeyPermissions E) k p w"

section \<open>Importing a public key\<close>

text \<open>\<^verbatim>\<open>ConfiguratorCore::importPublicKey\<close>, lines 178 to 205. The outcome of
  \<^verbatim>\<open>setPermissions\<close> is dropped, as in the source.\<close>

definition importPublicKey ::
  "Collaborators \<Rightarrow> UserRole \<Rightarrow> string \<Rightarrow> string \<Rightarrow> World \<Rightarrow> bool \<times> World" where
  "importPublicKey E role pubKey destDir w =
     (let dsaKey = PublicDSAKey_load E w pubKey in
      if \<not> isValid dsaKey
      then (False,
            logLine QCritical
              [''ConfiguratorCore::importPublicKey(): file'', pubKey,
               ''is not a valid public key file''] w)
      else
        let pub = publicKeyPath E role destDir in
        if QFile_exists w pub
        then
          (let w1 = snd (QFile_setPermissions E pub {WriteOwner} w);
               (removed, w2) = QFile_remove E pub w1 in
           if \<not> removed
           then (False,
                 logLine QCritical
                   [''ConfiguratorCore::importPublicKey(): could not remove existing public key file'',
                    pub] w2)
           else PublicDSAKey_save E dsaKey pub w2)
        else PublicDSAKey_save E dsaKey pub w)"

text \<open>Modelled from the spec: \<open>currentPublicKey(role, scope)\<close> of the read side is not part of
  the sources; it resolves the public key path and loads what is stored there.\<close>

definition currentPublicKey :: "Collaborators \<Rightarrow> World \<Rightarrow> UserRole \<Rightarrow> string \<Rightarrow> DsaKey option" where
  "currentPublicKey E w role destDir = PublicDSAKey_load E w (publicKeyPath E role destDir)"

section \<open>Creating a key pair\<close>

definition nl :: string where
  "nl = [CHR 0x0A]"

text \<open>The text of the second \<^verbatim>\<open>printf\<close> of \<^verbatim>\<open>createKeyPair\<close>.\<close>

definition ownershipHint :: string where
  "ownershipHint =
     nl @ nl @ nl @ ''For now the file is only readable by '' @
     ''root and members of group root (if you'' @ nl @
     ''didn't ran this command as non-root).'' @ nl @
     ''I suggest changing the ownership of the '' @
     ''private key so that the file is'' @ nl @ ''readable '' @
     ''by all members of a special group to which '' @
     ''all users belong who are'' @ nl @ ''allowed to use '' @
     ''iTALC.'' @ nl @ nl @ nl"

text \<open>\<^verbatim>\<open>ConfiguratorCore::createKeyPair\<close>, lines 137 to 173. The strength 1024 is the
  literal of line 143; the two paths reach the first \<^verbatim>\<open>printf\<close> as C strings.\<close>

definition createKeyPair ::
  "Collaborators \<Rightarrow> UserRole \<Rightarrow> string \<Rightarrow> World \<Rightarrow> bool \<times> World" where
  "createKeyPair E role destDir w =
     (let priv = privateKeyPath E role destDir;
          pub = publicKeyPath E role destDir;
          w0 = logLine LogLevelDefault
                 [''ConfiguratorCore: creating new key pair in'', priv, ''and'', pub] w;
          pkey = PrivateDSAKey_generate E 1024 in
      if \<not> isValid pkey
      then (False, ilog_failed ''key generation'' w0)
      else
        let (savedPriv, w1) = PrivateDSAKey_save E pkey priv w0 in
        if \<not> savedPriv
        then (False, ilog_failed ''saving private key'' w1)
        else
          let (savedPub, w2) = PublicDSAKey_save E (PublicDSAKey_derive E pkey) pub w1 in
          if \<not> savedPub
          then (False, ilog_failed ''saving public key'' w2)
          else (True,
                printf ownershipHint
                  (printf (''...done, saved key-pair in'' @ nl @ nl @ constData priv @
                           nl @ nl @ ''and'' @ nl @ nl @ constData pub) w2)))"

section \<open>Messages\<close>

text \<open>\<^verbatim>\<open>ConfiguratorCore::informationMessage\<close> and \<^verbatim>\<open>criticalMessage\<close>, lines 209 to 229:
  the log line first, then the message box when the application is a \<^verbatim>\<open>QApplication\<close>
  and the module is not silent. The log stream is given the title and the message as C
  strings, the message box the strings themselves.\<close>

definition informationMessage :: "string \<Rightarrow> string \<Rightarrow> World \<Rightarrow> World" where
  "informationMessage title msg w =
     (let w1 = logLine LogLevelInfo [constData title, '':'', constData msg] w in
      if guiApplication w1 \<and> \<not> silent w1
      then w1\<lparr>dialogs := dialogs w1 @ [InformationBox title msg]\<rparr>
      else w1)"

definition criticalMessage :: "string \<Rightarrow> string \<Rightarrow> World \<Rightarrow> World" where
  "criticalMessage title msg w =
     (let w1 = logLine LogLevelCritical [constData title, '':'', constData msg] w in
      if guiApplication w1 \<and> \<not> silent w1
      then w1\<lparr>dialogs := dialogs w1 @ [CriticalBox title msg]\<rparr>
      else w1)"

section \<open>Applying a configuration\<close>

definition configApplyError :: "ConfigCollaborators \<Rightarrow> string \<Rightarrow> World \<Rightarrow> World" where
  "configApplyError C msg w =
     criticalMessage (trArg C ''%1 Configurator'' (applicationName C)) msg w"

definition systemCall :: "SystemCall \<Rightarrow> World \<Rightarrow> World" where
  "systemCall c w = w\<lparr>systemCalls := systemCalls w @ [c]\<rparr>"

text \<open>The three messages of \<^verbatim>\<open>applyConfiguration\<close>.\<close>

definition autostartError :: "ConfigCollaborators \<Rightarrow> string" where
  "autostartError C =
     trArg C ''Could not modify the autostart property for the %1 Service.''
       (applicationName C)"

definition argumentsError :: "ConfigCollaborators \<Rightarrow> string" where
  "argumentsError C =
     trArg C ''Could not modify the service arguments for the %1 Service.''
       (applicationName C)"

definition firewallError :: "ConfigCollaborators \<Rightarrow> string" where
  "firewallError C =
     trArg C ''Could not change the firewall configuration for the %1 Service.''
       (applicationName C)"

text \<open>\<^verbatim>\<open>ConfiguratorCore::applyConfiguration\<close>, lines 56 to 98. Each modifier is called
  with the value read from the merged configuration, and a failure is reported through
  \<^verbatim>\<open>configApplyError\<close>; the block of lines 85 to 91 belongs to a Windows build only.\<close>

definition applyConfiguration :: "ConfigCollaborators \<Rightarrow> DataMap \<Rightarrow> World \<Rightarrow> bool \<times> World" where
  "applyConfiguration C c w =
     (let w1 = w\<lparr>config := mergeConfiguration C (config w) c\<rparr>;
          autostart = autostartService C (config w1);
          w2 = systemCall (SetServiceAutostart autostart) w1;
          w3 = (if \<not> setServiceAutostart C autostart
                then configApplyError C (autostartError C) w2 else w2);
          arguments = serviceArguments C (config w3);
          w4 = systemCall (SetServiceArguments arguments) w3;
          w5 = (if \<not> setServiceArguments C arguments
                then configApplyError C (argumentsError C) w4 else w4);
          firewall = isFirewallExceptionEnabled C (config w5);
          w6 = systemCall (EnableFirewallException firewall) w5;
          w7 = (if \<not> enableFirewallException C firewall
                then configApplyError C (firewallError C) w6 else w6);
          w8 = (if buildWin32 C
                then (let w' = w7\<lparr>config := removeValue C ''LogonACL'' ''Authentication'' (config w7)\<rparr>
                      in systemCall
                           (SetACL (configValue C ''EncodedLogonACL'' ''Authentication'' (config w')))
                           w')
                else w7);
          w9 = w8\<lparr>systemStore := Some (config w8)\<rparr>
      in (True, w9))"

section \<open>Listing a configuration\<close>

text \<open>The key under which the entries of a nested map are listed: line 109.\<close>

definition joinKey :: "string \<Rightarrow> string \<Rightarrow> string" where
  "joinKey parentKey key = (if parentKey = [] then key else parentKey @ ''/'' @ key)"

text \<open>The static \<^verbatim>\<open>listConfiguration( map, parentKey )\<close>, lines 103 to 125: the loop over
  the entries is the recursion over the list, and the three branches on the type of the
  value are the three kinds of equation.\<close>

fun listConfiguration_map :: "DataMap \<Rightarrow> string \<Rightarrow> World \<Rightarrow> World" where
  "listConfiguration_map [] parentKey w = w"
| "listConfiguration_map ((key, VMap m) # rest) parentKey w =
     listConfiguration_map rest parentKey
       (listConfiguration_map m (joinKey parentKey key) w)"
| "listConfiguration_map ((key, VString s) # rest) parentKey w =
     listConfiguration_map rest parentKey
       (printf (joinKey parentKey key @ ''='' @ s @ nl) w)"
| "listConfiguration_map ((key, v) # rest) parentKey w =
     listConfiguration_map rest parentKey
       (logLine QWarning [''unknown value in configuration data map''] w)"

text \<open>\<^verbatim>\<open>ConfiguratorCore::listConfiguration( config )\<close>, lines 129 to 132.\<close>

definition listConfiguration :: "DataMap \<Rightarrow> World \<Rightarrow> World" where
  "listConfiguration cfg w = listConfiguration_map cfg [] w"

text \<open>What a listing is expected to show, in the words of its description: the string
  leaves of the nested map, each with the keys that lead to it from the root, in the
  order of the map; the keys joined with slashes; and the entries that are neither a
  string nor a map.\<close>

fun leaves :: "DataMap \<Rightarrow> (string list \<times> string) list" where
  "leaves [] = []"
| "leaves ((key, VMap m) # rest) = map (\<lambda>(ks, s). (key # ks, s)) (leaves m) @ leaves rest"
| "leaves ((key, VString s) # rest) = ([key], s) # leaves rest"
| "leaves ((key, v) # rest) = leaves rest"

fun slashJoin :: "string list \<Rightarrow> string" where
  "slashJoin [] = []"
| "slashJoin [k] = k"
| "slashJoin (k # ks) = k @ ''/'' @ slashJoin ks"

fun unknownEntries :: "DataMap \<Rightarrow> nat" where
  "unknownEntries [] = 0"
| "unknownEntries ((key, VMap m) # rest) = unknownEntries m + unknownEntries rest"
| "unknownEntries ((key, VString s) # rest) = unknownEntries rest"
| "unknownEntries ((key, v) # rest) = Suc (unknownEntries rest)"

section \<open>A concrete installation\<close>

text \<open>One instance of the collaborators, to run the operations on: keys live under the
  destination directory by kind and role, a public key file starts with \<open>ssh-dss\<close>, a file
  can be removed only when its owner may write it, and every path can be written.\<close>

fun roleName :: "UserRole \<Rightarrow> string" where
  "roleName RoleNone = ''none''"
| "roleName RoleTeacher = ''teacher''"
| "roleName RoleAdmin = ''admin''"
| "roleName RoleSupporter = ''supporter''"
| "roleName RoleOther = ''other''"

definition exampleCollaborators :: Collaborators where
  "exampleCollaborators =
     \<lparr>privateKeyPath = (\<lambda>role d. d @ ''/private/'' @ roleName role @ ''/key''),
      publicKeyPath = (\<lambda>role d. d @ ''/public/'' @ roleName role @ ''/key''),
      decodePublic = (\<lambda>s. if take 7 s = ''ssh-dss''
                          then Some \<lparr>keyBits = 1024, keyBytes = s\<rparr> else None),
      generatePrivate = (\<lambda>n. Some \<lparr>keyBits = n, keyBytes = ''dsa-private x''\<rparr>),
      derivePublic = (\<lambda>k. \<lparr>keyBits = keyBits k, keyBytes = ''ssh-dss y''\<rparr>),
      publicKeyPermissions = {ReadOwner, ReadUser, ReadGroup, ReadOther},
      canSetPermissions = (\<lambda>p. True),
      canRemove = (\<lambda>p perms. WriteOwner \<in> perms),
      canWrite = (\<lambda>p. True)\<rparr>"

text \<open>The same installation on a disk that cannot be written.\<close>

definition readOnlyCollaborators :: Collaborators where
  "readOnlyCollaborators = exampleCollaborators\<lparr>canWrite := (\<lambda>p. False)\<rparr>"

definition worldWith :: "(string \<times> File) list \<Rightarrow> World" where
  "worldWith fs =
     \<lparr>files = map_of fs, logged = [], printed = [], dialogs = [],
      silent = False, guiApplication = False,
      config = [], systemStore = None, systemCalls = []\<rparr>"

text \<open>A supporter key is installed under \<open>/etc\<close>, and two files wait to be imported: a
  well-formed key and a file that is no key.\<close>

definition oldKeyFile :: File where
  "oldKeyFile = \<lparr>content = ''ssh-dss old'', permissions = {ReadOwner, ReadGroup}\<rparr>"

definition installedWorld :: World where
  "installedWorld =
     worldWith
       [(''/etc/public/supporter/key'', oldKeyFile),
        (''/tmp/new.pub'', \<lparr>content = ''ssh-dss new'', permissions = {ReadOwner, WriteOwner}\<rparr>),
        (''/tmp/junk.pub'', \<lparr>content = ''not a key'', permissions = {ReadOwner, WriteOwner}\<rparr>)]"


text \<open>A graphical session that was started with the silent switch.\<close>

definition silentWorld :: World where
  "silentWorld = (worldWith [])\<lparr>silent := True, guiApplication := True\<rparr>"

text \<open>One instance of the collaborators of \<open>applyConfiguration\<close>: texts are not translated
  and the marker \<open>%1\<close> is replaced by the argument, an entry of the merged-in configuration
  replaces the entry of the same key, the settings are top-level strings, and on this
  machine the service manager refuses the autostart change and the firewall refuses the
  exception.\<close>

fun replaceMarker :: "string \<Rightarrow> string \<Rightarrow> string" where
  "replaceMarker (c # d # s) a =
     (if c = CHR ''%'' \<and> d = CHR ''1'' then a @ replaceMarker s a
      else c # replaceMarker (d # s) a)"
| "replaceMarker s a = s"

definition exampleConfigCollaborators :: ConfigCollaborators where
  "exampleConfigCollaborators =
     \<lparr>applicationName = ''iTALC'',
      trArg = replaceMarker,
      mergeConfiguration = (\<lambda>old new. new @ filter (\<lambda>e. fst e \<notin> set (map fst new)) old),
      autostartService = (\<lambda>c. map_of c ''Autostart'' = Some (VString ''1'')),
      serviceArguments = (\<lambda>c. case map_of c ''Arguments'' of Some (VString s) \<Rightarrow> s | _ \<Rightarrow> []),
      isFirewallExceptionEnabled = (\<lambda>c. map_of c ''FirewallException'' = Some (VString ''1'')),
      configValue = (\<lambda>key parentKey c. []),
      removeValue = (\<lambda>key parentKey c. c),
      setServiceAutostart = (\<lambda>b. False),
      setServiceArguments = (\<lambda>a. True),
      enableFirewallException = (\<lambda>b. False),
      buildWin32 = False\<rparr>"

text \<open>A configuration with a string, a nested map, and a value that is neither.\<close>

definition exampleConfiguration :: DataMap where
  "exampleConfiguration =
     [(''Language'', VString ''de''),
      (''Service'', VMap [(''Autostart'', VString ''1''), (''Port'', VInt 11100)])]"

text \<open>The same collaborators in a Windows build, with the two accessors of the Windows
  block reading and removing a value of a group.\<close>

definition windowsConfigCollaborators :: ConfigCollaborators where
  "windowsConfigCollaborators =
     exampleConfigCollaborators
       \<lparr>configValue :=
          (\<lambda>key parentKey c.
             case map_of c parentKey of
               Some (VMap m) \<Rightarrow> (case map_of m key of Some (VString s) \<Rightarrow> s | _ \<Rightarrow> [])
             | _ \<Rightarrow> []),
        removeValue :=
          (\<lambda>key parentKey c.
             map (\<lambda>e. if fst e = parentKey
                       then (fst e, (case snd e of
                                       VMap m \<Rightarrow> VMap (filter (\<lambda>x. fst x \<noteq> key) m)
                                     | v \<Rightarrow> v))
                       else e) c),
        buildWin32 := True\<rparr>"

text \<open>A configuration that still carries a logon ACL next to its encoded form.\<close>

definition logonConfiguration :: DataMap where
  "logonConfiguration =
     [(''Authentication'',
       VMap [(''EncodedLogonACL'', VString ''acl-1''), (''LogonACL'', VString ''S-1-5-32-544'')])]"

section \<open>Importing a public key: what a failure leaves behind\<close>

text \<open>C1: when the source file does not load as a valid public key, \<open>importPublicKey\<close>
  answers failure and the filesystem is the one it started with; in particular a key
  already installed at the destination is still there, byte for byte.\<close>

theorem importPublicKey_invalid_source:
  assumes "\<not> isValid (PublicDSAKey_load E w pubKey)"
  shows "fst (importPublicKey E role pubKey destDir w) = False \<and>
         files (snd (importPublicKey E role pubKey destDir w)) = files w"
  using assms by (simp add: importPublicKey_def logLine_def)

theorem importPublicKey_invalid_source_witness:
  "\<not> isValid (PublicDSAKey_load exampleCollaborators installedWorld ''/tmp/junk.pub'') \<and>
   fst (importPublicKey exampleCollaborators RoleSupporter ''/tmp/junk.pub'' ''/etc''
          installedWorld) = False \<and>
   files (snd (importPublicKey exampleCollaborators RoleSupporter ''/tmp/junk.pub'' ''/etc''
                 installedWorld)) ''/etc/public/supporter/key''
     = Some oldKeyFile"
proof -
  have h: "\<not> isValid (PublicDSAKey_load exampleCollaborators installedWorld ''/tmp/junk.pub'')"
    by (simp add: PublicDSAKey_load_def isValid_def exampleCollaborators_def
        installedWorld_def worldWith_def)
  have f: "files installedWorld ''/etc/public/supporter/key'' = Some oldKeyFile"
    by (simp add: installedWorld_def worldWith_def)
  show ?thesis
    using h f importPublicKey_invalid_source [OF h, of RoleSupporter "''/etc''"] by simp
qed

text \<open>C2, as stated: a failed import never leaves the role without its previous key. On a
  disk that cannot be written, the supporter's key is loadable before the import, the
  import fails, and no key is loadable after it.\<close>

theorem importPublicKey_not_atomic_counterexample:
  "currentPublicKey readOnlyCollaborators installedWorld RoleSupporter ''/etc''
     = Some \<lparr>keyBits = 1024, keyBytes = ''ssh-dss old''\<rparr> \<and>
   fst (importPublicKey readOnlyCollaborators RoleSupporter ''/tmp/new.pub'' ''/etc''
          installedWorld) = False \<and>
   currentPublicKey readOnlyCollaborators
     (snd (importPublicKey readOnlyCollaborators RoleSupporter ''/tmp/new.pub'' ''/etc''
             installedWorld))
     RoleSupporter ''/etc'' = None"
  by (simp add: importPublicKey_def PublicDSAKey_load_def isValid_def QFile_exists_def
      QFile_setPermissions_def QFile_remove_def PublicDSAKey_save_def saveKey_def
      logLine_def currentPublicKey_def readOnlyCollaborators_def exampleCollaborators_def
      installedWorld_def worldWith_def oldKeyFile_def)

text \<open>C2, amended: when \<open>importPublicKey\<close> fails while a file is installed at the
  destination, then: if the source was invalid, the filesystem is untouched; if the
  removal of the installed file was refused, its bytes are still at the destination;
  otherwise the installed file has been removed, the write was refused, and the
  destination holds no key.\<close>

theorem importPublicKey_failure_cases:
  assumes "importPublicKey E role pubKey destDir w = (False, w')"
    and "files w (publicKeyPath E role destDir) = Some f"
  shows "if \<not> isValid (PublicDSAKey_load E w pubKey) then files w' = files w
         else if \<not> canRemove E (publicKeyPath E role destDir)
                    (if canSetPermissions E (publicKeyPath E role destDir)
                     then {WriteOwner} else permissions f)
         then map_option content (files w' (publicKeyPath E role destDir)) = Some (content f)
         else files w' (publicKeyPath E role destDir) = None \<and>
              \<not> canWrite E (publicKeyPath E role destDir)"
  using assms
  by (auto simp: importPublicKey_def PublicDSAKey_load_def isValid_def QFile_exists_def
      QFile_setPermissions_def QFile_remove_def PublicDSAKey_save_def saveKey_def
      logLine_def Let_def split: if_splits option.splits prod.splits)

theorem importPublicKey_failure_cases_witness:
  "importPublicKey readOnlyCollaborators RoleSupporter ''/tmp/new.pub'' ''/etc'' installedWorld
     = (False, installedWorld\<lparr>files :=
          (files installedWorld)(''/etc/public/supporter/key'' := None)\<rparr>) \<and>
   files installedWorld (publicKeyPath readOnlyCollaborators RoleSupporter ''/etc'')
     = Some oldKeyFile \<and>
   files (installedWorld\<lparr>files := (files installedWorld)(''/etc/public/supporter/key'' := None)\<rparr>)
     (publicKeyPath readOnlyCollaborators RoleSupporter ''/etc'') = None"
proof -
  let ?w' = "installedWorld\<lparr>files :=
               (files installedWorld)(''/etc/public/supporter/key'' := None)\<rparr>"
  have r: "importPublicKey readOnlyCollaborators RoleSupporter ''/tmp/new.pub'' ''/etc''
             installedWorld = (False, ?w')"
    by (simp add: importPublicKey_def PublicDSAKey_load_def isValid_def QFile_exists_def
        QFile_setPermissions_def QFile_remove_def PublicDSAKey_save_def saveKey_def
        readOnlyCollaborators_def exampleCollaborators_def installedWorld_def worldWith_def
        oldKeyFile_def)
  have f: "files installedWorld (publicKeyPath readOnlyCollaborators RoleSupporter ''/etc'')
             = Some oldKeyFile"
    by (simp add: readOnlyCollaborators_def exampleCollaborators_def installedWorld_def
        worldWith_def)
  have v: "isValid (PublicDSAKey_load readOnlyCollaborators installedWorld ''/tmp/new.pub'')"
    by (simp add: PublicDSAKey_load_def isValid_def readOnlyCollaborators_def
        exampleCollaborators_def installedWorld_def worldWith_def)
  have c: "canRemove readOnlyCollaborators
             (publicKeyPath readOnlyCollaborators RoleSupporter ''/etc'')
             (if canSetPermissions readOnlyCollaborators
                   (publicKeyPath readOnlyCollaborators RoleSupporter ''/etc'')
              then {WriteOwner} else permissions oldKeyFile)"
    by (simp add: readOnlyCollaborators_def exampleCollaborators_def)
  from importPublicKey_failure_cases [OF r f] v c
  have "files ?w' (publicKeyPath readOnlyCollaborators RoleSupporter ''/etc'') = None"
    by simp
  with r f show ?thesis by simp
qed

section \<open>Importing a public key: success\<close>

text \<open>C3: after \<open>importPublicKey\<close> answers success, the source file held a valid key, the
  file at the destination of the role consists of exactly that key's bytes (nothing of a
  file installed before is left), and the key read back for the role is the one those
  bytes decode to.\<close>

theorem importPublicKey_success_stores_key:
  assumes "importPublicKey E role pubKey destDir w = (True, w')"
  shows "\<exists>k. PublicDSAKey_load E w pubKey = Some k \<and>
             files w' (publicKeyPath E role destDir)
               = Some \<lparr>content = keyBytes k, permissions = publicKeyPermissions E\<rparr> \<and>
             currentPublicKey E w' role destDir = decodePublic E (keyBytes k)"
  using assms
  by (auto simp: importPublicKey_def PublicDSAKey_load_def isValid_def QFile_exists_def
      QFile_setPermissions_def QFile_remove_def PublicDSAKey_save_def saveKey_def
      logLine_def currentPublicKey_def Let_def
      split: if_splits option.splits prod.splits)

theorem importPublicKey_success_stores_key_witness:
  "importPublicKey exampleCollaborators RoleSupporter ''/tmp/new.pub'' ''/etc'' installedWorld
     = (True, installedWorld\<lparr>files := (files installedWorld)
          (''/etc/public/supporter/key'' \<mapsto>
             \<lparr>content = ''ssh-dss new'',
              permissions = {ReadOwner, ReadUser, ReadGroup, ReadOther}\<rparr>)\<rparr>) \<and>
   currentPublicKey exampleCollaborators installedWorld RoleSupporter ''/etc''
     = Some \<lparr>keyBits = 1024, keyBytes = ''ssh-dss old''\<rparr> \<and>
   currentPublicKey exampleCollaborators
     (snd (importPublicKey exampleCollaborators RoleSupporter ''/tmp/new.pub'' ''/etc''
             installedWorld))
     RoleSupporter ''/etc''
     = Some \<lparr>keyBits = 1024, keyBytes = ''ssh-dss new''\<rparr>"
proof -
  let ?w' = "installedWorld\<lparr>files := (files installedWorld)
          (''/etc/public/supporter/key'' \<mapsto>
             \<lparr>content = ''ssh-dss new'',
              permissions = {ReadOwner, ReadUser, ReadGroup, ReadOther}\<rparr>)\<rparr>"
  have r: "importPublicKey exampleCollaborators RoleSupporter ''/tmp/new.pub'' ''/etc''
             installedWorld = (True, ?w')"
    by (simp add: importPublicKey_def PublicDSAKey_load_def isValid_def QFile_exists_def
        QFile_setPermissions_def QFile_remove_def PublicDSAKey_save_def saveKey_def
        exampleCollaborators_def installedWorld_def worldWith_def oldKeyFile_def)
  have l: "PublicDSAKey_load exampleCollaborators installedWorld ''/tmp/new.pub''
     = Some \<lparr>keyBits = 1024, keyBytes = ''ssh-dss new''\<rparr>"
    by (simp add: PublicDSAKey_load_def exampleCollaborators_def installedWorld_def
        worldWith_def)
  have old: "currentPublicKey exampleCollaborators installedWorld RoleSupporter ''/etc''
     = Some \<lparr>keyBits = 1024, keyBytes = ''ssh-dss old''\<rparr>"
    by (simp add: currentPublicKey_def PublicDSAKey_load_def exampleCollaborators_def
        installedWorld_def worldWith_def oldKeyFile_def)
  from importPublicKey_success_stores_key [OF r] l
  have "currentPublicKey exampleCollaborators ?w' RoleSupporter ''/etc''
          = decodePublic exampleCollaborators ''ssh-dss new''"
    by simp
  then have "currentPublicKey exampleCollaborators ?w' RoleSupporter ''/etc''
          = Some \<lparr>keyBits = 1024, keyBytes = ''ssh-dss new''\<rparr>"
    by (simp add: exampleCollaborators_def)
  with r old show ?thesis by simp
qed

section \<open>Importing a public key: the installed file\<close>




section \<open>Creating a key pair: the steps\<close>

text \<open>C4: \<open>createKeyPair\<close> asks for a private key of 1024 bits. When the generation fails,
  it answers false and has written no file. When the private key cannot be saved, it
  answers false and has written no file. When the public key cannot be saved, it answers
  false and has written the private key only. Otherwise it answers true, the private key
  is stored at the private key path and the public key derived from it at the public
  key path.\<close>

theorem createKeyPair_steps:
  "(case generatePrivate E 1024 of
      None \<Rightarrow>
        fst (createKeyPair E role destDir w) = False \<and>
        files (snd (createKeyPair E role destDir w)) = files w
    | Some k \<Rightarrow>
        if \<not> canWrite E (privateKeyPath E role destDir)
        then fst (createKeyPair E role destDir w) = False \<and>
             files (snd (createKeyPair E role destDir w)) = files w
        else if \<not> canWrite E (publicKeyPath E role destDir)
        then fst (createKeyPair E role destDir w) = False \<and>
             files (snd (createKeyPair E role destDir w))
               = (files w)(privateKeyPath E role destDir \<mapsto>
                    \<lparr>content = keyBytes k, permissions = {ReadOwner, WriteOwner, ReadGroup}\<rparr>)
        else fst (createKeyPair E role destDir w) = True \<and>
             files (snd (createKeyPair E role destDir w))
               = (files w)(privateKeyPath E role destDir \<mapsto>
                    \<lparr>content = keyBytes k, permissions = {ReadOwner, WriteOwner, ReadGroup}\<rparr>,
                  publicKeyPath E role destDir \<mapsto>
                    \<lparr>content = keyBytes (derivePublic E k),
                     permissions = publicKeyPermissions E\<rparr>))"
  by (simp add: createKeyPair_def PrivateDSAKey_generate_def PublicDSAKey_derive_def
      PrivateDSAKey_save_def PublicDSAKey_save_def saveKey_def isValid_def logLine_def
      ilog_failed_def printf_def Let_def split: option.splits)

theorem createKeyPair_steps_witness:
  "fst (createKeyPair exampleCollaborators RoleAdmin ''/etc'' (worldWith [])) = True \<and>
   files (snd (createKeyPair exampleCollaborators RoleAdmin ''/etc'' (worldWith [])))
     ''/etc/private/admin/key''
     = Some \<lparr>content = ''dsa-private x'', permissions = {ReadOwner, WriteOwner, ReadGroup}\<rparr> \<and>
   files (snd (createKeyPair exampleCollaborators RoleAdmin ''/etc'' (worldWith [])))
     ''/etc/public/admin/key''
     = Some \<lparr>content = ''ssh-dss y'',
             permissions = {ReadOwner, ReadUser, ReadGroup, ReadOther}\<rparr> \<and>
   fst (createKeyPair readOnlyCollaborators RoleAdmin ''/etc'' (worldWith [])) = False \<and>
   files (snd (createKeyPair readOnlyCollaborators RoleAdmin ''/etc'' (worldWith [])))
     ''/etc/private/admin/key'' = None"
proof -
  have g: "generatePrivate exampleCollaborators 1024
             = Some \<lparr>keyBits = 1024, keyBytes = ''dsa-private x''\<rparr>"
    by (simp add: exampleCollaborators_def)
  have g': "generatePrivate readOnlyCollaborators 1024
             = Some \<lparr>keyBits = 1024, keyBytes = ''dsa-private x''\<rparr>"
    by (simp add: readOnlyCollaborators_def exampleCollaborators_def)
  from createKeyPair_steps [of exampleCollaborators RoleAdmin "''/etc''" "worldWith []"] g
  have ok: "fst (createKeyPair exampleCollaborators RoleAdmin ''/etc'' (worldWith [])) = True \<and>
     files (snd (createKeyPair exampleCollaborators RoleAdmin ''/etc'' (worldWith [])))
       = (files (worldWith []))
           (''/etc/private/admin/key'' \<mapsto>
              \<lparr>content = ''dsa-private x'', permissions = {ReadOwner, WriteOwner, ReadGroup}\<rparr>,
            ''/etc/public/admin/key'' \<mapsto>
              \<lparr>content = ''ssh-dss y'',
               permissions = {ReadOwner, ReadUser, ReadGroup, ReadOther}\<rparr>)"
    by (simp add: exampleCollaborators_def)
  from createKeyPair_steps [of readOnlyCollaborators RoleAdmin "''/etc''" "worldWith []"] g'
  have no: "fst (createKeyPair readOnlyCollaborators RoleAdmin ''/etc'' (worldWith [])) = False \<and>
     files (snd (createKeyPair readOnlyCollaborators RoleAdmin ''/etc'' (worldWith [])))
       = files (worldWith [])"
    by (simp add: readOnlyCollaborators_def exampleCollaborators_def)
  from ok no show ?thesis by (simp add: worldWith_def)
qed

section \<open>Applying a configuration: failures are reported, not fatal\<close>

lemma configApplyError_fields:
  "config (configApplyError C m w) = config w"
  "systemStore (configApplyError C m w) = systemStore w"
  "systemCalls (configApplyError C m w) = systemCalls w"
  "silent (configApplyError C m w) = silent w"
  "guiApplication (configApplyError C m w) = guiApplication w"
  "logged (configApplyError C m w)
     = logged w @
       [(LogLevelCritical,
         [constData (trArg C ''%1 Configurator'' (applicationName C)), '':'', constData m])]"
  "dialogs (configApplyError C m w)
     = dialogs w @ (if guiApplication w \<and> \<not> silent w
                    then [CriticalBox (trArg C ''%1 Configurator'' (applicationName C)) m] else [])"
  by (simp_all add: configApplyError_def criticalMessage_def logLine_def Let_def)

lemma systemCall_fields:
  "config (systemCall c w) = config w"
  "systemStore (systemCall c w) = systemStore w"
  "systemCalls (systemCall c w) = systemCalls w @ [c]"
  "silent (systemCall c w) = silent w"
  "guiApplication (systemCall c w) = guiApplication w"
  "logged (systemCall c w) = logged w"
  "dialogs (systemCall c w) = dialogs w"
  by (simp_all add: systemCall_def)

lemma applyConfiguration_result: "fst (applyConfiguration C c w) = True"
  by (simp add: applyConfiguration_def Let_def)

lemma applyConfiguration_config:
  "config (snd (applyConfiguration C c w))
     = (if buildWin32 C
        then removeValue C ''LogonACL'' ''Authentication'' (mergeConfiguration C (config w) c)
        else mergeConfiguration C (config w) c)"
  by (simp add: applyConfiguration_def Let_def configApplyError_fields systemCall_fields)

lemma applyConfiguration_store:
  "systemStore (snd (applyConfiguration C c w)) = Some (config (snd (applyConfiguration C c w)))"
  by (simp add: applyConfiguration_def Let_def)

lemma applyConfiguration_calls:
  "systemCalls (snd (applyConfiguration C c w))
     = systemCalls w @
         [SetServiceAutostart (autostartService C (mergeConfiguration C (config w) c)),
          SetServiceArguments (serviceArguments C (mergeConfiguration C (config w) c)),
          EnableFirewallException
            (isFirewallExceptionEnabled C (mergeConfiguration C (config w) c))] @
         (if buildWin32 C
          then [SetACL (configValue C ''EncodedLogonACL'' ''Authentication''
                  (removeValue C ''LogonACL'' ''Authentication''
                     (mergeConfiguration C (config w) c)))]
          else [])"
  by (simp add: applyConfiguration_def Let_def configApplyError_fields systemCall_fields)

lemma applyConfiguration_logged:
  "logged (snd (applyConfiguration C c w))
     = logged w @
       map (\<lambda>m. (LogLevelCritical,
                  [constData (trArg C ''%1 Configurator'' (applicationName C)), '':'',
                   constData m]))
         ((if setServiceAutostart C (autostartService C (mergeConfiguration C (config w) c))
           then [] else [autostartError C]) @
          (if setServiceArguments C (serviceArguments C (mergeConfiguration C (config w) c))
           then [] else [argumentsError C]) @
          (if enableFirewallException C
                (isFirewallExceptionEnabled C (mergeConfiguration C (config w) c))
           then [] else [firewallError C]))"
  by (simp add: applyConfiguration_def Let_def configApplyError_fields systemCall_fields)

lemma applyConfiguration_dialogs:
  "dialogs (snd (applyConfiguration C c w))
     = dialogs w @
       (if guiApplication w \<and> \<not> silent w
        then map (CriticalBox (trArg C ''%1 Configurator'' (applicationName C)))
         ((if setServiceAutostart C (autostartService C (mergeConfiguration C (config w) c))
           then [] else [autostartError C]) @
          (if setServiceArguments C (serviceArguments C (mergeConfiguration C (config w) c))
           then [] else [argumentsError C]) @
          (if enableFirewallException C
                (isFirewallExceptionEnabled C (mergeConfiguration C (config w) c))
           then [] else [firewallError C]))
        else [])"
  by (simp add: applyConfiguration_def Let_def configApplyError_fields systemCall_fields)

text \<open>C6, as stated: the merged configuration is what is flushed to the local store. In a
  Windows build, merging a configuration that carries a logon ACL into the empty one
  gives that configuration, and the store holds it without the logon ACL afterwards.\<close>

theorem applyConfiguration_flushes_merged_counterexample:
  "mergeConfiguration windowsConfigCollaborators (config (worldWith [])) logonConfiguration
     = logonConfiguration \<and>
   systemStore (snd (applyConfiguration windowsConfigCollaborators logonConfiguration
                       (worldWith [])))
     = Some [(''Authentication'', VMap [(''EncodedLogonACL'', VString ''acl-1'')])] \<and>
   systemStore (snd (applyConfiguration windowsConfigCollaborators logonConfiguration
                       (worldWith [])))
     \<noteq> Some (mergeConfiguration windowsConfigCollaborators (config (worldWith []))
               logonConfiguration)"
  by (simp add: applyConfiguration_store applyConfiguration_config
      windowsConfigCollaborators_def exampleConfigCollaborators_def logonConfiguration_def
      worldWith_def)

text \<open>C6, amended: \<open>applyConfiguration\<close> answers true for every input. The global
  configuration becomes the merge of the input into it, in a Windows build less the value
  \<open>LogonACL\<close> of the group \<open>Authentication\<close>, and that configuration is what the system-wide
  store holds afterwards. The three modifiers are each called once, in order, with the
  values of the merged configuration, whether or not an earlier one failed; each one
  that reports failure adds one critical entry to the log, and one message box when the
  session is graphical and not silent.\<close>

theorem applyConfiguration_reports_and_flushes:
  "(let merged = mergeConfiguration C (config w) c;
        final = (if buildWin32 C
                 then removeValue C ''LogonACL'' ''Authentication'' merged else merged);
        title = trArg C ''%1 Configurator'' (applicationName C);
        failures =
          (if setServiceAutostart C (autostartService C merged) then [] else [autostartError C]) @
          (if setServiceArguments C (serviceArguments C merged) then [] else [argumentsError C]) @
          (if enableFirewallException C (isFirewallExceptionEnabled C merged)
           then [] else [firewallError C]);
        w' = snd (applyConfiguration C c w)
    in fst (applyConfiguration C c w) = True \<and>
       config w' = final \<and>
       systemStore w' = Some final \<and>
       logged w' = logged w @
         map (\<lambda>m. (LogLevelCritical, [constData title, '':'', constData m])) failures \<and>
       dialogs w' = dialogs w @
         (if guiApplication w \<and> \<not> silent w then map (CriticalBox title) failures else []) \<and>
       systemCalls w' = systemCalls w @
         [SetServiceAutostart (autostartService C merged),
          SetServiceArguments (serviceArguments C merged),
          EnableFirewallException (isFirewallExceptionEnabled C merged)] @
         (if buildWin32 C
          then [SetACL (configValue C ''EncodedLogonACL'' ''Authentication'' final)] else []))"
  unfolding Let_def
  by (simp add: applyConfiguration_result applyConfiguration_store applyConfiguration_config
      applyConfiguration_calls applyConfiguration_logged applyConfiguration_dialogs)

theorem applyConfiguration_reports_and_flushes_witness:
  "fst (applyConfiguration windowsConfigCollaborators logonConfiguration (worldWith [])) = True \<and>
   config (snd (applyConfiguration windowsConfigCollaborators logonConfiguration (worldWith [])))
     = [(''Authentication'', VMap [(''EncodedLogonACL'', VString ''acl-1'')])] \<and>
   logged (snd (applyConfiguration windowsConfigCollaborators logonConfiguration (worldWith [])))
     = [(LogLevelCritical,
         [''iTALC Configurator'', '':'',
          ''Could not modify the autostart property for the iTALC Service.'']),
        (LogLevelCritical,
         [''iTALC Configurator'', '':'',
          ''Could not change the firewall configuration for the iTALC Service.''])] \<and>
   systemCalls (snd (applyConfiguration windowsConfigCollaborators logonConfiguration
                       (worldWith [])))
     = [SetServiceAutostart False, SetServiceArguments [], EnableFirewallException False,
        SetACL ''acl-1'']"
  using applyConfiguration_reports_and_flushes
          [of windowsConfigCollaborators "worldWith []" logonConfiguration]
  by (simp add: Let_def windowsConfigCollaborators_def exampleConfigCollaborators_def
      logonConfiguration_def worldWith_def autostartError_def argumentsError_def
      firewallError_def constData_def)

section \<open>Messages in silent mode\<close>

lemma constData_whole: "CHR 0x00 \<notin> set s \<Longrightarrow> constData s = s"
  unfolding constData_def by (rule takeWhile_eq_all_conv [THEN iffD2]) blast

text \<open>C7, as stated: the title and the message are written to the log. In a silent
  session, a title with a NUL character after its third letter reaches the log as those
  three letters only.\<close>

theorem messages_title_cut_counterexample:
  "silent silentWorld \<and>
   logged (informationMessage (''Set'' @ [CHR 0x00] @ ''up'') ''done'' silentWorld)
     = [(LogLevelInfo, [''Set'', '':'', ''done''])] \<and>
   logged (informationMessage (''Set'' @ [CHR 0x00] @ ''up'') ''done'' silentWorld)
     \<noteq> logged silentWorld @ [(LogLevelInfo, [''Set'' @ [CHR 0x00] @ ''up'', '':'', ''done''])]"
  by (simp add: informationMessage_def logLine_def constData_def silentWorld_def
      worldWith_def)

text \<open>C7, amended: when the module is silent, or the application is not a graphical one,
  \<open>informationMessage\<close> and \<open>criticalMessage\<close> change nothing but the log, to which they add
  the title and the message, each up to its first NUL character: no message box is
  shown. In every mode the log gets that entry, which holds the whole title and the
  whole message when neither contains a NUL character.\<close>

theorem messages_log_only_when_silent:
  "(silent w \<or> \<not> guiApplication w \<longrightarrow>
      informationMessage title msg w
        = w\<lparr>logged := logged w @ [(LogLevelInfo, [constData title, '':'', constData msg])]\<rparr> \<and>
      criticalMessage title msg w
        = w\<lparr>logged := logged w @
              [(LogLevelCritical, [constData title, '':'', constData msg])]\<rparr>) \<and>
   logged (informationMessage title msg w)
     = logged w @ [(LogLevelInfo, [constData title, '':'', constData msg])] \<and>
   logged (criticalMessage title msg w)
     = logged w @ [(LogLevelCritical, [constData title, '':'', constData msg])] \<and>
   (CHR 0x00 \<notin> set title \<and> CHR 0x00 \<notin> set msg \<longrightarrow>
      logged (informationMessage title msg w) = logged w @ [(LogLevelInfo, [title, '':'', msg])] \<and>
      logged (criticalMessage title msg w)
        = logged w @ [(LogLevelCritical, [title, '':'', msg])])"
  by (auto simp: informationMessage_def criticalMessage_def logLine_def Let_def
      constData_whole)

theorem messages_log_only_when_silent_witness:
  "silent silentWorld \<and> guiApplication silentWorld \<and>
   CHR 0x00 \<notin> set ''Setup'' \<and> CHR 0x00 \<notin> set ''done'' \<and>
   informationMessage ''Setup'' ''done'' silentWorld
     = silentWorld\<lparr>logged := [(LogLevelInfo, [''Setup'', '':'', ''done''])]\<rparr> \<and>
   dialogs (criticalMessage ''Setup'' ''failed'' silentWorld) = [] \<and>
   logged (criticalMessage ''Setup'' ''done'' silentWorld)
     = [(LogLevelCritical, [''Setup'', '':'', ''done''])]"
proof -
  have s: "silent silentWorld \<and> guiApplication silentWorld"
    by (simp add: silentWorld_def worldWith_def)
  have e: "logged silentWorld = [] \<and> dialogs silentWorld = []"
    by (simp add: silentWorld_def worldWith_def)
  have n: "CHR 0x00 \<notin> set ''Setup'' \<and> CHR 0x00 \<notin> set ''done''"
    by simp
  have k: "constData ''Setup'' = ''Setup'' \<and> constData ''done'' = ''done''"
    by (simp add: constData_def)
  from messages_log_only_when_silent [of silentWorld "''Setup''" "''done''"] s e n k
  have i: "informationMessage ''Setup'' ''done'' silentWorld
     = silentWorld\<lparr>logged := [(LogLevelInfo, [''Setup'', '':'', ''done''])]\<rparr>"
    and l: "logged (criticalMessage ''Setup'' ''done'' silentWorld)
     = [(LogLevelCritical, [''Setup'', '':'', ''done''])]"
    by simp_all
  from messages_log_only_when_silent [of silentWorld "''Setup''" "''failed''"] s e
  have c: "dialogs (criticalMessage ''Setup'' ''failed'' silentWorld) = []"
    by simp
  from s n i c l show ?thesis by simp
qed

section \<open>Listing a configuration: the lines\<close>

lemma printed_logLine: "printed (logLine ch items w) = printed w"
  by (simp add: logLine_def)

lemma logged_printf: "logged (printf s w) = logged w"
  by (simp add: printf_def)

lemma printed_listConfiguration_map:
  "printed (listConfiguration_map m parentKey w)
     = printed w @ map (\<lambda>(ks, s). foldl joinKey parentKey ks @ ''='' @ s @ nl) (leaves m)"
  by (induction m parentKey w rule: listConfiguration_map.induct)
     (simp_all add: printed_logLine printf_def case_prod_beta comp_def)

lemma logged_listConfiguration_map:
  "logged (listConfiguration_map m parentKey w)
     = logged w @
       replicate (unknownEntries m) (QWarning, [''unknown value in configuration data map''])"
  by (induction m parentKey w rule: listConfiguration_map.induct)
     (simp_all add: logged_printf logLine_def replicate_add replicate_append_same)

lemma foldl_joinKey_nonempty:
  "p \<noteq> [] \<Longrightarrow> foldl joinKey p ks = p @ concat (map (\<lambda>k. ''/'' @ k) ks)"
  by (induction ks arbitrary: p) (simp_all add: joinKey_def)

lemma slashJoin_Cons: "slashJoin (k # ks) = k @ concat (map (\<lambda>k. ''/'' @ k) ks)"
  by (induction ks arbitrary: k) simp_all

lemma foldl_joinKey_root:
  "foldl joinKey [] ks = slashJoin (dropWhile (\<lambda>k. k = []) ks)"
proof (induction ks)
  case Nil
  then show ?case by simp
next
  case (Cons k ks)
  show ?case
  proof (cases "k = []")
    case True
    with Cons show ?thesis by (simp add: joinKey_def)
  next
    case False
    then have "foldl joinKey [] (k # ks) = foldl joinKey k ks"
      by (simp add: joinKey_def)
    also have "\<dots> = k @ concat (map (\<lambda>k. ''/'' @ k) ks)"
      using False by (rule foldl_joinKey_nonempty)
    also have "\<dots> = slashJoin (k # ks)"
      by (simp only: slashJoin_Cons)
    finally show ?thesis using False by simp
  qed
qed

text \<open>C10, as stated: the path of a line is the slash-joined sequence of the keys from
  the root to the leaf. A map whose root entry has the empty key and holds the string
  \<open>x\<close> under \<open>a\<close> has the key sequence (empty, \<open>a\<close>), which joins to \<open>/a\<close>; the line
  printed is \<open>a=x\<close>.\<close>

theorem listConfiguration_empty_key_counterexample:
  "leaves [('''', VMap [(''a'', VString ''x'')])] = [(['''', ''a''], ''x'')] \<and>
   slashJoin ['''', ''a''] = ''/a'' \<and>
   printed (listConfiguration [('''', VMap [(''a'', VString ''x'')])] (worldWith []))
     = [''a=x'' @ nl] \<and>
   printed (listConfiguration [('''', VMap [(''a'', VString ''x'')])] (worldWith []))
     \<noteq> map (\<lambda>(ks, s). slashJoin ks @ ''='' @ s @ nl)
         (leaves [('''', VMap [(''a'', VString ''x'')])])"
  by (simp add: listConfiguration_def joinKey_def printf_def worldWith_def)

text \<open>C10, amended: \<open>listConfiguration\<close> prints, in the order of the map, exactly one line
  \<open>path=value\<close> for each string leaf of the nested map, where the path is the
  slash-joined sequence of the keys from the root to the leaf without the empty keys
  that sequence starts with; it recurses into the maps; and each entry of another type
  adds one warning to the log and no line.\<close>

theorem listConfiguration_lines:
  "printed (listConfiguration cfg w)
     = printed w @
       map (\<lambda>(ks, s). slashJoin (dropWhile (\<lambda>k. k = []) ks) @ ''='' @ s @ nl) (leaves cfg) \<and>
   logged (listConfiguration cfg w)
     = logged w @
       replicate (unknownEntries cfg) (QWarning, [''unknown value in configuration data map''])"
  by (simp add: listConfiguration_def printed_listConfiguration_map
      logged_listConfiguration_map foldl_joinKey_root)

theorem listConfiguration_lines_witness:
  "printed (listConfiguration exampleConfiguration (worldWith []))
     = [''Language=de'' @ nl, ''Service/Autostart=1'' @ nl] \<and>
   logged (listConfiguration exampleConfiguration (worldWith []))
     = [(QWarning, [''unknown value in configuration data map''])]"
  using listConfiguration_lines [of exampleConfiguration "worldWith []"]
  by (simp add: exampleConfiguration_def worldWith_def)

end
